theory Spec2Isabelle
  imports Main "HOL-Library.Word"
begin

section \<open>Levels\<close>

text \<open>
  Modelled from the spec: the declaration of the type \<open>Level\<close> and of its six constants
  is not part of \<open>logger.go\<close>, which only compares \<open>logger.Level\<close> with them.  The spec
  (section 3) gives an integer-like ordinal with the severity order
  Panic > Fatal > Error > Warn > Info > Debug, and \<open>logger.go\<close> tests
  \<open>logger.Level >= XLevel\<close> for "log level is at least X level", so a more severe level has
  the smaller number: the constants count up from \<open>PanicLevel = 0\<close>.  The ordinal is an
  unsigned byte; no theorem below depends on its width.
\<close>

type_synonym Level = "8 word"

definition PanicLevel :: Level where "PanicLevel = 0"
definition FatalLevel :: Level where "FatalLevel = 1"
definition ErrorLevel :: Level where "ErrorLevel = 2"
definition WarnLevel :: Level where "WarnLevel = 3"
definition InfoLevel :: Level where "InfoLevel = 4"
definition DebugLevel :: Level where "DebugLevel = 5"

text \<open>
  The severity order in the spec's own words, on the six named levels, to compare the
  numeric tests of the code with: \<open>severity\<close> grows with severity, and a threshold \<open>t\<close>
  is at least as permissive as a level \<open>l\<close> when it is not more severe than \<open>l\<close>.
\<close>

datatype LevelName = PANIC | FATAL | ERROR | WARN | INFO | DEBUG

fun severity :: "LevelName \<Rightarrow> nat" where
  "severity DEBUG = 0"
| "severity INFO = 1"
| "severity WARN = 2"
| "severity ERROR = 3"
| "severity FATAL = 4"
| "severity PANIC = 5"

definition at_least_as_permissive :: "LevelName \<Rightarrow> LevelName \<Rightarrow> bool" where
  "at_least_as_permissive t l = (severity t \<le> severity l)"

definition strictly_less_severe :: "LevelName \<Rightarrow> LevelName \<Rightarrow> bool" where
  "strictly_less_severe l t = (severity l < severity t)"

fun level_of :: "LevelName \<Rightarrow> Level" where
  "level_of PANIC = PanicLevel"
| "level_of FATAL = FatalLevel"
| "level_of ERROR = ErrorLevel"
| "level_of WARN = WarnLevel"
| "level_of INFO = InfoLevel"
| "level_of DEBUG = DebugLevel"

section \<open>The Logger\<close>

text \<open>
  The collaborators of a Logger are interfaces (\<open>io.Writer\<close>, \<open>Formatter\<close>, \<open>Hook\<close>)
  whose implementations live outside \<open>logger.go\<close>; a value of each is modelled by its
  identity.  \<open>Stdout\<close> is \<open>os.Stdout\<close> and \<open>TextFormatter\<close> is \<open>new(TextFormatter)\<close>.
  \<open>levelHooks\<close> is \<open>map[Level][]Hook\<close>, and \<open>make(levelHooks)\<close> is the empty map.
  The zero value of \<open>sync.Mutex\<close> is an unlocked mutex.
\<close>

datatype Writer = Stdout | Stderr | OtherWriter nat

datatype Formatter = TextFormatter | JSONFormatter | OtherFormatter nat

datatype Hook = Hook nat

type_synonym levelHooks = "Level \<rightharpoonup> Hook list"

datatype Mutex = Unlocked | Locked

record Logger =
  Out :: Writer
  Hooks :: levelHooks
  Formatter :: Formatter
  Level :: Level
  mu :: Mutex

definition New :: Logger where
  "New = \<lparr>Out = Stdout, Hooks = Map.empty, Formatter = TextFormatter, Level = InfoLevel,
          mu = Unlocked\<rparr>"

definition IsDebug :: "Logger \<Rightarrow> bool" where
  "IsDebug logger = (Level logger \<ge> DebugLevel)"

definition IsInfo :: "Logger \<Rightarrow> bool" where
  "IsInfo logger = (Level logger \<ge> InfoLevel)"

definition IsWarn :: "Logger \<Rightarrow> bool" where
  "IsWarn logger = (Level logger \<ge> WarnLevel)"

definition IsError :: "Logger \<Rightarrow> bool" where
  "IsError logger = (Level logger \<ge> ErrorLevel)"

definition IsFatal :: "Logger \<Rightarrow> bool" where
  "IsFatal logger = (Level logger \<ge> FatalLevel)"

definition IsPanic :: "Logger \<Rightarrow> bool" where
  "IsPanic logger = (Level logger \<ge> PanicLevel)"

section \<open>Entries\<close>

text \<open>
  \<open>logger.go\<close> builds every record through \<open>NewEntry\<close> and the methods of \<open>Entry\<close>,
  which are declared in another file of the repository.  They are modelled here from
  section 4.3 of the spec, over an explicit world: the clock, and the trace of what the
  call did to its collaborators (the formatter was invoked, a hook was fired, bytes were
  handed to the sink, a failure was reported on the fallback channel).

  The behaviour of the collaborators themselves (the \<open>fmt\<close> functions that build the
  message, the formatter, the hooks, the sink) is outside the core and is a parameter,
  the environment \<open>Env\<close>: a formatter returns bytes or an error, a hook and a write
  return an error or nothing.  \<open>Value\<close> stands for \<open>interface{}\<close>.
\<close>

datatype Value = StringValue string | IntValue int | BoolValue bool

type_synonym Fields = "string \<rightharpoonup> Value"

datatype error = Err string

text \<open>
  Modelled from the spec: the type \<open>Entry\<close> (section 3): the owning Logger, the fields
  accumulated so far, a message, a level and a timestamp.
\<close>

record Entry =
  entry_logger :: Logger
  entry_fields :: Fields
  entry_message :: string
  entry_level :: Level
  entry_time :: nat

record Env =
  Sprint :: "Value list \<Rightarrow> string"
  Sprintf :: "string \<Rightarrow> Value list \<Rightarrow> string"
  Sprintln :: "Value list \<Rightarrow> string"
  Format :: "Formatter \<Rightarrow> Entry \<Rightarrow> error + string"
  Fallback :: "Entry \<Rightarrow> string"
  Fire :: "Hook \<Rightarrow> Entry \<Rightarrow> error option"
  Write :: "Writer \<Rightarrow> string \<Rightarrow> error option"

datatype Event =
    Formatted Entry
  | Fired Hook Entry
  | Written Writer string
  | Reported error

record World =
  now :: nat
  trace :: "Event list"

datatype Outcome = Returned | Exited | Panicked string

definition emit :: "Event \<Rightarrow> World \<Rightarrow> World" where
  "emit ev w = w\<lparr>trace := trace w @ [ev]\<rparr>"

text \<open>
  Modelled from the spec: \<open>NewEntry\<close>, absent from \<open>logger.go\<close>: "a fresh Entry bound to
  this Logger with no fields" and an empty message; level and timestamp are fixed only
  when a terminal call finalizes the entry, and hold the zero value until then.
\<close>

definition NewEntry :: "Logger \<Rightarrow> Entry" where
  "NewEntry logger =
     \<lparr>entry_logger = logger, entry_fields = Map.empty, entry_message = [],
      entry_level = 0, entry_time = 0\<rparr>"



text \<open>
  Modelled from the spec: \<open>isAtLeast(level, threshold)\<close> of section 4.1, in the direction
  of the predicates of \<open>logger.go\<close> (\<open>logger.Level >= XLevel\<close>): the level passes a
  threshold that is at least as permissive.
\<close>

definition isAtLeast :: "Level \<Rightarrow> Level \<Rightarrow> bool" where
  "isAtLeast lvl threshold = (threshold \<ge> lvl)"

text \<open>
  Modelled from the spec: the lookup in the hooks registry (section 3).  A level without
  an entry in the map has no hooks.
\<close>

definition hooks_for :: "Logger \<Rightarrow> Level \<Rightarrow> Hook list" where
  "hooks_for logger lvl = (case Hooks logger lvl of None \<Rightarrow> [] | Some hs \<Rightarrow> hs)"

text \<open>
  Modelled from the spec: steps 3 to 6 of the terminal call \<open>log\<close> in section 4.3.
  Step 3: the formatter is invoked; a failure is reported on the fallback channel and the
  call goes on with a fallback representation.
\<close>

definition format_step :: "Env \<Rightarrow> Entry \<Rightarrow> World \<Rightarrow> string \<times> World" where
  "format_step env entry w =
     (let w1 = emit (Formatted entry) w in
      case Format env (Formatter (entry_logger entry)) entry of
        Inr bs \<Rightarrow> (bs, w1)
      | Inl e \<Rightarrow> (Fallback env entry, emit (Reported e) w1))"

text \<open>
  Modelled from the spec: step 4.  The hooks of the level fire in registration order; each failure is reported
  and neither stops the remaining hooks nor the write.
\<close>

fun fire_hooks :: "Env \<Rightarrow> Hook list \<Rightarrow> Entry \<Rightarrow> World \<Rightarrow> World" where
  "fire_hooks env [] entry w = w"
| "fire_hooks env (h # hs) entry w =
     (let w1 = emit (Fired h entry) w in
      fire_hooks env hs entry
        (case Fire env h entry of None \<Rightarrow> w1 | Some e \<Rightarrow> emit (Reported e) w1))"

text \<open>
  Modelled from the spec: step 5.  The bytes go to the sink of the Logger; a failed write is reported.  The write
  happens with the mutex of the Logger held; in this sequential model the lock is taken
  and released around the write and \<open>mu\<close> is as it was.
\<close>

definition write_step :: "Env \<Rightarrow> Logger \<Rightarrow> string \<Rightarrow> World \<Rightarrow> World" where
  "write_step env logger bs w =
     (let w1 = emit (Written (Out logger) bs) w in
      case Write env (Out logger) bs of None \<Rightarrow> w1 | Some e \<Rightarrow> emit (Reported e) w1)"

text \<open>
  Modelled from the spec: step 6.  Fatal terminates the process and Panic unwinds with the message, also after a
  failed write; every other level returns to the caller.
\<close>

definition finish :: "Level \<Rightarrow> string \<Rightarrow> Outcome" where
  "finish lvl msg =
     (if lvl = FatalLevel then Exited else if lvl = PanicLevel then Panicked msg
      else Returned)"

text \<open>
  Modelled from the spec: steps 2 to 6 in sequence: finalize (timestamp, message and
  level), format, fire, write, finish.
\<close>

definition dispatch :: "Env \<Rightarrow> Entry \<Rightarrow> Level \<Rightarrow> string \<Rightarrow> World \<Rightarrow> Outcome \<times> World" where
  "dispatch env entry lvl msg w =
     (let final = entry\<lparr>entry_message := msg, entry_level := lvl, entry_time := now w\<rparr>;
          (bs, w1) = format_step env final w;
          w2 = fire_hooks env (hooks_for (entry_logger entry) lvl) final w1;
          w3 = write_step env (entry_logger entry) bs w2
      in (finish lvl msg, w3))"

text \<open>
  Modelled from the spec: the terminal call \<open>log(level, message)\<close>.  Step 1 is the gate:
  a level that is not at least the threshold of the Logger is a no-op that returns at
  once.
\<close>

definition Entry_log :: "Env \<Rightarrow> Entry \<Rightarrow> Level \<Rightarrow> string \<Rightarrow> World \<Rightarrow> Outcome \<times> World" where
  "Entry_log env entry lvl msg w =
     (if \<not> isAtLeast lvl (Level (entry_logger entry)) then (Returned, w)
      else dispatch env entry lvl msg w)"

text \<open>
  Modelled from the spec: the terminal methods of \<open>Entry\<close> (section 4.3).  Each builds
  the message by the rule of its variant (\<open>Sprint\<close> for the plain form, \<open>Sprintf\<close> for
  the formatted form, \<open>Sprintln\<close> for the line form) and calls \<open>log\<close> once with its
  level.  The \<open>Warning\<close> names are aliases of the \<open>Warn\<close> methods.  The \<open>Print\<close> methods
  record the level Info and skip the gate.
\<close>

definition Entry_Debug :: "Env \<Rightarrow> Entry \<Rightarrow> Value list \<Rightarrow> World \<Rightarrow> Outcome \<times> World" where
  "Entry_Debug env entry args = Entry_log env entry DebugLevel (Sprint env args)"

definition Entry_Info :: "Env \<Rightarrow> Entry \<Rightarrow> Value list \<Rightarrow> World \<Rightarrow> Outcome \<times> World" where
  "Entry_Info env entry args = Entry_log env entry InfoLevel (Sprint env args)"

definition Entry_Print :: "Env \<Rightarrow> Entry \<Rightarrow> Value list \<Rightarrow> World \<Rightarrow> Outcome \<times> World" where
  "Entry_Print env entry args = dispatch env entry InfoLevel (Sprint env args)"

definition Entry_Warn :: "Env \<Rightarrow> Entry \<Rightarrow> Value list \<Rightarrow> World \<Rightarrow> Outcome \<times> World" where
  "Entry_Warn env entry args = Entry_log env entry WarnLevel (Sprint env args)"

definition Entry_Warning :: "Env \<Rightarrow> Entry \<Rightarrow> Value list \<Rightarrow> World \<Rightarrow> Outcome \<times> World" where
  "Entry_Warning env entry args = Entry_Warn env entry args"

definition Entry_Error :: "Env \<Rightarrow> Entry \<Rightarrow> Value list \<Rightarrow> World \<Rightarrow> Outcome \<times> World" where
  "Entry_Error env entry args = Entry_log env entry ErrorLevel (Sprint env args)"

definition Entry_Fatal :: "Env \<Rightarrow> Entry \<Rightarrow> Value list \<Rightarrow> World \<Rightarrow> Outcome \<times> World" where
  "Entry_Fatal env entry args = Entry_log env entry FatalLevel (Sprint env args)"

definition Entry_Panic :: "Env \<Rightarrow> Entry \<Rightarrow> Value list \<Rightarrow> World \<Rightarrow> Outcome \<times> World" where
  "Entry_Panic env entry args = Entry_log env entry PanicLevel (Sprint env args)"

definition Entry_Debugf :: "Env \<Rightarrow> Entry \<Rightarrow> string \<Rightarrow> Value list \<Rightarrow> World \<Rightarrow> Outcome \<times> World" where
  "Entry_Debugf env entry format args = Entry_log env entry DebugLevel (Sprintf env format args)"

definition Entry_Infof :: "Env \<Rightarrow> Entry \<Rightarrow> string \<Rightarrow> Value list \<Rightarrow> World \<Rightarrow> Outcome \<times> World" where
  "Entry_Infof env entry format args = Entry_log env entry InfoLevel (Sprintf env format args)"

definition Entry_Printf :: "Env \<Rightarrow> Entry \<Rightarrow> string \<Rightarrow> Value list \<Rightarrow> World \<Rightarrow> Outcome \<times> World" where
  "Entry_Printf env entry format args = dispatch env entry InfoLevel (Sprintf env format args)"

definition Entry_Warnf :: "Env \<Rightarrow> Entry \<Rightarrow> string \<Rightarrow> Value list \<Rightarrow> World \<Rightarrow> Outcome \<times> World" where
  "Entry_Warnf env entry format args = Entry_log env entry WarnLevel (Sprintf env format args)"

definition Entry_Warningf :: "Env \<Rightarrow> Entry \<Rightarrow> string \<Rightarrow> Value list \<Rightarrow> World \<Rightarrow> Outcome \<times> World" where
  "Entry_Warningf env entry format args = Entry_Warnf env entry format args"

definition Entry_Errorf :: "Env \<Rightarrow> Entry \<Rightarrow> string \<Rightarrow> Value list \<Rightarrow> World \<Rightarrow> Outcome \<times> World" where
  "Entry_Errorf env entry format args = Entry_log env entry ErrorLevel (Sprintf env format args)"

definition Entry_Fatalf :: "Env \<Rightarrow> Entry \<Rightarrow> string \<Rightarrow> Value list \<Rightarrow> World \<Rightarrow> Outcome \<times> World" where
  "Entry_Fatalf env entry format args = Entry_log env entry FatalLevel (Sprintf env format args)"

definition Entry_Panicf :: "Env \<Rightarrow> Entry \<Rightarrow> string \<Rightarrow> Value list \<Rightarrow> World \<Rightarrow> Outcome \<times> World" where
  "Entry_Panicf env entry format args = Entry_log env entry PanicLevel (Sprintf env format args)"

definition Entry_Debugln :: "Env \<Rightarrow> Entry \<Rightarrow> Value list \<Rightarrow> World \<Rightarrow> Outcome \<times> World" where
  "Entry_Debugln env entry args = Entry_log env entry DebugLevel (Sprintln env args)"

definition Entry_Infoln :: "Env \<Rightarrow> Entry \<Rightarrow> Value list \<Rightarrow> World \<Rightarrow> Outcome \<times> World" where
  "Entry_Infoln env entry args = Entry_log env entry InfoLevel (Sprintln env args)"

definition Entry_Println :: "Env \<Rightarrow> Entry \<Rightarrow> Value list \<Rightarrow> World \<Rightarrow> Outcome \<times> World" where
  "Entry_Println env entry args = dispatch env entry InfoLevel (Sprintln env args)"

definition Entry_Warnln :: "Env \<Rightarrow> Entry \<Rightarrow> Value list \<Rightarrow> World \<Rightarrow> Outcome \<times> World" where
  "Entry_Warnln env entry args = Entry_log env entry WarnLevel (Sprintln env args)"

definition Entry_Warningln :: "Env \<Rightarrow> Entry \<Rightarrow> Value list \<Rightarrow> World \<Rightarrow> Outcome \<times> World" where
  "Entry_Warningln env entry args = Entry_Warnln env entry args"

definition Entry_Errorln :: "Env \<Rightarrow> Entry \<Rightarrow> Value list \<Rightarrow> World \<Rightarrow> Outcome \<times> World" where
  "Entry_Errorln env entry args = Entry_log env entry ErrorLevel (Sprintln env args)"

definition Entry_Fatalln :: "Env \<Rightarrow> Entry \<Rightarrow> Value list \<Rightarrow> World \<Rightarrow> Outcome \<times> World" where
  "Entry_Fatalln env entry args = Entry_log env entry FatalLevel (Sprintln env args)"

definition Entry_Panicln :: "Env \<Rightarrow> Entry \<Rightarrow> Value list \<Rightarrow> World \<Rightarrow> Outcome \<times> World" where
  "Entry_Panicln env entry args = Entry_log env entry PanicLevel (Sprintln env args)"

section \<open>The methods of the Logger\<close>



definition Logger_Debugf :: "Env \<Rightarrow> Logger \<Rightarrow> string \<Rightarrow> Value list \<Rightarrow> World \<Rightarrow> Outcome \<times> World" where
  "Logger_Debugf env logger format args = Entry_Debugf env (NewEntry logger) format args"

definition Logger_Infof :: "Env \<Rightarrow> Logger \<Rightarrow> string \<Rightarrow> Value list \<Rightarrow> World \<Rightarrow> Outcome \<times> World" where
  "Logger_Infof env logger format args = Entry_Infof env (NewEntry logger) format args"

definition Logger_Printf :: "Env \<Rightarrow> Logger \<Rightarrow> string \<Rightarrow> Value list \<Rightarrow> World \<Rightarrow> Outcome \<times> World" where
  "Logger_Printf env logger format args = Entry_Printf env (NewEntry logger) format args"

definition Logger_Warnf :: "Env \<Rightarrow> Logger \<Rightarrow> string \<Rightarrow> Value list \<Rightarrow> World \<Rightarrow> Outcome \<times> World" where
  "Logger_Warnf env logger format args = Entry_Warnf env (NewEntry logger) format args"

definition Logger_Warningf :: "Env \<Rightarrow> Logger \<Rightarrow> string \<Rightarrow> Value list \<Rightarrow> World \<Rightarrow> Outcome \<times> World" where
  "Logger_Warningf env logger format args = Entry_Warnf env (NewEntry logger) format args"

definition Logger_Errorf :: "Env \<Rightarrow> Logger \<Rightarrow> string \<Rightarrow> Value list \<Rightarrow> World \<Rightarrow> Outcome \<times> World" where
  "Logger_Errorf env logger format args = Entry_Errorf env (NewEntry logger) format args"

definition Logger_Fatalf :: "Env \<Rightarrow> Logger \<Rightarrow> string \<Rightarrow> Value list \<Rightarrow> World \<Rightarrow> Outcome \<times> World" where
  "Logger_Fatalf env logger format args = Entry_Fatalf env (NewEntry logger) format args"

definition Logger_Panicf :: "Env \<Rightarrow> Logger \<Rightarrow> string \<Rightarrow> Value list \<Rightarrow> World \<Rightarrow> Outcome \<times> World" where
  "Logger_Panicf env logger format args = Entry_Panicf env (NewEntry logger) format args"

definition Logger_Debug :: "Env \<Rightarrow> Logger \<Rightarrow> Value list \<Rightarrow> World \<Rightarrow> Outcome \<times> World" where
  "Logger_Debug env logger args = Entry_Debug env (NewEntry logger) args"

definition Logger_Info :: "Env \<Rightarrow> Logger \<Rightarrow> Value list \<Rightarrow> World \<Rightarrow> Outcome \<times> World" where
  "Logger_Info env logger args = Entry_Info env (NewEntry logger) args"

definition Logger_Print :: "Env \<Rightarrow> Logger \<Rightarrow> Value list \<Rightarrow> World \<Rightarrow> Outcome \<times> World" where
  "Logger_Print env logger args = Entry_Info env (NewEntry logger) args"

definition Logger_Warn :: "Env \<Rightarrow> Logger \<Rightarrow> Value list \<Rightarrow> World \<Rightarrow> Outcome \<times> World" where
  "Logger_Warn env logger args = Entry_Warn env (NewEntry logger) args"

definition Logger_Warning :: "Env \<Rightarrow> Logger \<Rightarrow> Value list \<Rightarrow> World \<Rightarrow> Outcome \<times> World" where
  "Logger_Warning env logger args = Entry_Warn env (NewEntry logger) args"

definition Logger_Error :: "Env \<Rightarrow> Logger \<Rightarrow> Value list \<Rightarrow> World \<Rightarrow> Outcome \<times> World" where
  "Logger_Error env logger args = Entry_Error env (NewEntry logger) args"

definition Logger_Fatal :: "Env \<Rightarrow> Logger \<Rightarrow> Value list \<Rightarrow> World \<Rightarrow> Outcome \<times> World" where
  "Logger_Fatal env logger args = Entry_Fatal env (NewEntry logger) args"

definition Logger_Panic :: "Env \<Rightarrow> Logger \<Rightarrow> Value list \<Rightarrow> World \<Rightarrow> Outcome \<times> World" where
  "Logger_Panic env logger args = Entry_Panic env (NewEntry logger) args"

definition Logger_Debugln :: "Env \<Rightarrow> Logger \<Rightarrow> Value list \<Rightarrow> World \<Rightarrow> Outcome \<times> World" where
  "Logger_Debugln env logger args = Entry_Debugln env (NewEntry logger) args"

definition Logger_Infoln :: "Env \<Rightarrow> Logger \<Rightarrow> Value list \<Rightarrow> World \<Rightarrow> Outcome \<times> World" where
  "Logger_Infoln env logger args = Entry_Infoln env (NewEntry logger) args"

definition Logger_Println :: "Env \<Rightarrow> Logger \<Rightarrow> Value list \<Rightarrow> World \<Rightarrow> Outcome \<times> World" where
  "Logger_Println env logger args = Entry_Println env (NewEntry logger) args"

definition Logger_Warnln :: "Env \<Rightarrow> Logger \<Rightarrow> Value list \<Rightarrow> World \<Rightarrow> Outcome \<times> World" where
  "Logger_Warnln env logger args = Entry_Warnln env (NewEntry logger) args"

definition Logger_Warningln :: "Env \<Rightarrow> Logger \<Rightarrow> Value list \<Rightarrow> World \<Rightarrow> Outcome \<times> World" where
  "Logger_Warningln env logger args = Entry_Warnln env (NewEntry logger) args"

definition Logger_Errorln :: "Env \<Rightarrow> Logger \<Rightarrow> Value list \<Rightarrow> World \<Rightarrow> Outcome \<times> World" where
  "Logger_Errorln env logger args = Entry_Errorln env (NewEntry logger) args"

definition Logger_Fatalln :: "Env \<Rightarrow> Logger \<Rightarrow> Value list \<Rightarrow> World \<Rightarrow> Outcome \<times> World" where
  "Logger_Fatalln env logger args = Entry_Fatalln env (NewEntry logger) args"

definition Logger_Panicln :: "Env \<Rightarrow> Logger \<Rightarrow> Value list \<Rightarrow> World \<Rightarrow> Outcome \<times> World" where
  "Logger_Panicln env logger args = Entry_Panicln env (NewEntry logger) args"

section \<open>The table of logging methods\<close>

text \<open>
  To state a property of every logging method at once, the methods are enumerated in the
  order of \<open>logger.go\<close>.  \<open>Logger_call\<close> invokes the method of the Logger with that name,
  \<open>Entry_call\<close> the method of an Entry with the same name; the plain and line forms take
  no format string.  \<open>method_level\<close> is the level the method logs at, and \<open>is_print\<close>
  singles out the Print family.
\<close>

datatype Method =
    Debugf | Infof | Printf | Warnf | Warningf | Errorf | Fatalf | Panicf
  | Debug | Info | Print | Warn | Warning | Error | Fatal | Panic
  | Debugln | Infoln | Println | Warnln | Warningln | Errorln | Fatalln | Panicln

fun Logger_call ::
  "Env \<Rightarrow> Method \<Rightarrow> Logger \<Rightarrow> string \<Rightarrow> Value list \<Rightarrow> World \<Rightarrow> Outcome \<times> World" where
  "Logger_call env Debugf logger format args = Logger_Debugf env logger format args"
| "Logger_call env Infof logger format args = Logger_Infof env logger format args"
| "Logger_call env Printf logger format args = Logger_Printf env logger format args"
| "Logger_call env Warnf logger format args = Logger_Warnf env logger format args"
| "Logger_call env Warningf logger format args = Logger_Warningf env logger format args"
| "Logger_call env Errorf logger format args = Logger_Errorf env logger format args"
| "Logger_call env Fatalf logger format args = Logger_Fatalf env logger format args"
| "Logger_call env Panicf logger format args = Logger_Panicf env logger format args"
| "Logger_call env Debug logger format args = Logger_Debug env logger args"
| "Logger_call env Info logger format args = Logger_Info env logger args"
| "Logger_call env Print logger format args = Logger_Print env logger args"
| "Logger_call env Warn logger format args = Logger_Warn env logger args"
| "Logger_call env Warning logger format args = Logger_Warning env logger args"
| "Logger_call env Error logger format args = Logger_Error env logger args"
| "Logger_call env Fatal logger format args = Logger_Fatal env logger args"
| "Logger_call env Panic logger format args = Logger_Panic env logger args"
| "Logger_call env Debugln logger format args = Logger_Debugln env logger args"
| "Logger_call env Infoln logger format args = Logger_Infoln env logger args"
| "Logger_call env Println logger format args = Logger_Println env logger args"
| "Logger_call env Warnln logger format args = Logger_Warnln env logger args"
| "Logger_call env Warningln logger format args = Logger_Warningln env logger args"
| "Logger_call env Errorln logger format args = Logger_Errorln env logger args"
| "Logger_call env Fatalln logger format args = Logger_Fatalln env logger args"
| "Logger_call env Panicln logger format args = Logger_Panicln env logger args"


fun method_level :: "Method \<Rightarrow> LevelName" where
  "method_level Debugf = DEBUG"
| "method_level Infof = INFO"
| "method_level Printf = INFO"
| "method_level Warnf = WARN"
| "method_level Warningf = WARN"
| "method_level Errorf = ERROR"
| "method_level Fatalf = FATAL"
| "method_level Panicf = PANIC"
| "method_level Debug = DEBUG"
| "method_level Info = INFO"
| "method_level Print = INFO"
| "method_level Warn = WARN"
| "method_level Warning = WARN"
| "method_level Error = ERROR"
| "method_level Fatal = FATAL"
| "method_level Panic = PANIC"
| "method_level Debugln = DEBUG"
| "method_level Infoln = INFO"
| "method_level Println = INFO"
| "method_level Warnln = WARN"
| "method_level Warningln = WARN"
| "method_level Errorln = ERROR"
| "method_level Fatalln = FATAL"
| "method_level Panicln = PANIC"

fun is_print :: "Method \<Rightarrow> bool" where
  "is_print Printf = True"
| "is_print Print = True"
| "is_print Println = True"
| "is_print _ = False"

section \<open>What a call did\<close>

text \<open>
  A call is suppressed when it returns to the caller and leaves the world as it was.
  Otherwise the events it appended to the trace tell what it did: whether the formatter
  was invoked, which hooks fired and in which order, whether bytes were handed to a
  given sink, and which failures were reported on the fallback channel.
\<close>

definition suppressed :: "Outcome \<times> World \<Rightarrow> World \<Rightarrow> bool" where
  "suppressed r w = (r = (Returned, w))"

definition new_events :: "World \<Rightarrow> Outcome \<times> World \<Rightarrow> Event list" where
  "new_events w r = drop (length (trace w)) (trace (snd r))"

fun is_format :: "Event \<Rightarrow> bool" where
  "is_format (Formatted entry) = True"
| "is_format _ = False"

fun fired_hook :: "Event \<Rightarrow> Hook list" where
  "fired_hook (Fired h entry) = [h]"
| "fired_hook _ = []"

fun is_write_to :: "Writer \<Rightarrow> Event \<Rightarrow> bool" where
  "is_write_to out (Written out' bs) = (out' = out)"
| "is_write_to out _ = False"

fun is_level :: "Level \<Rightarrow> Event \<Rightarrow> bool" where
  "is_level lvl (Formatted entry) = (entry_level entry = lvl)"
| "is_level lvl (Fired h entry) = (entry_level entry = lvl)"
| "is_level lvl _ = True"

definition formats :: "Event list \<Rightarrow> bool" where
  "formats evs = list_ex is_format evs"

definition hooks_fired :: "Event list \<Rightarrow> Hook list" where
  "hooks_fired evs = concat (map fired_hook evs)"

definition writes_to :: "Writer \<Rightarrow> Event list \<Rightarrow> bool" where
  "writes_to out evs = list_ex (is_write_to out) evs"

definition records_level :: "Level \<Rightarrow> Event list \<Rightarrow> bool" where
  "records_level lvl evs = list_all (is_level lvl) evs"


text \<open>
  Every failure of a collaborator that shows in the events (the formatter failed on the
  entry it was given, a fired hook failed, a write failed) was reported.
\<close>

fun failure_of :: "Env \<Rightarrow> Event \<Rightarrow> error option" where
  "failure_of env (Formatted entry) =
     (case Format env (Formatter (entry_logger entry)) entry of
        Inl e \<Rightarrow> Some e | Inr bs \<Rightarrow> None)"
| "failure_of env (Fired h entry) = Fire env h entry"
| "failure_of env (Written out bs) = Write env out bs"
| "failure_of env (Reported e) = None"

definition failures :: "Env \<Rightarrow> Event list \<Rightarrow> error list" where
  "failures env evs = concat (map (\<lambda>ev. case failure_of env ev of None \<Rightarrow> [] | Some e \<Rightarrow> [e]) evs)"

fun reported_error :: "Event \<Rightarrow> error list" where
  "reported_error (Reported e) = [e]"
| "reported_error _ = []"

definition reported :: "Event list \<Rightarrow> error list" where
  "reported evs = concat (map reported_error evs)"

section \<open>The events of a dispatched call\<close>

text \<open>
  The events that steps 3 to 6 append to the trace, as lists: those of the formatter,
  of the hooks and of the write.  \<open>finalized\<close> is the entry of step 2, and
  \<open>formatted_bytes\<close> the bytes that reach the sink.
\<close>

definition finalized :: "Entry \<Rightarrow> Level \<Rightarrow> string \<Rightarrow> World \<Rightarrow> Entry" where
  "finalized entry lvl msg w =
     entry\<lparr>entry_message := msg, entry_level := lvl, entry_time := now w\<rparr>"

definition format_events :: "Env \<Rightarrow> Entry \<Rightarrow> Event list" where
  "format_events env entry =
     Formatted entry #
       (case Format env (Formatter (entry_logger entry)) entry of
          Inr bs \<Rightarrow> [] | Inl e \<Rightarrow> [Reported e])"

definition formatted_bytes :: "Env \<Rightarrow> Entry \<Rightarrow> string" where
  "formatted_bytes env entry =
     (case Format env (Formatter (entry_logger entry)) entry of
        Inr bs \<Rightarrow> bs | Inl e \<Rightarrow> Fallback env entry)"

fun hook_events :: "Env \<Rightarrow> Hook list \<Rightarrow> Entry \<Rightarrow> Event list" where
  "hook_events env [] entry = []"
| "hook_events env (h # hs) entry =
     Fired h entry # (case Fire env h entry of None \<Rightarrow> [] | Some e \<Rightarrow> [Reported e])
       @ hook_events env hs entry"

definition write_events :: "Env \<Rightarrow> Writer \<Rightarrow> string \<Rightarrow> Event list" where
  "write_events env out bs =
     Written out bs # (case Write env out bs of None \<Rightarrow> [] | Some e \<Rightarrow> [Reported e])"

definition dispatch_events :: "Env \<Rightarrow> Entry \<Rightarrow> Level \<Rightarrow> Event list" where
  "dispatch_events env final lvl =
     format_events env final
       @ hook_events env (hooks_for (entry_logger final) lvl) final
       @ write_events env (Out (entry_logger final)) (formatted_bytes env final)"

text \<open>The message a method builds from its arguments, by the rule of its variant.\<close>

fun method_message :: "Env \<Rightarrow> Method \<Rightarrow> string \<Rightarrow> Value list \<Rightarrow> string" where
  "method_message env Debugf format args = Sprintf env format args"
| "method_message env Infof format args = Sprintf env format args"
| "method_message env Printf format args = Sprintf env format args"
| "method_message env Warnf format args = Sprintf env format args"
| "method_message env Warningf format args = Sprintf env format args"
| "method_message env Errorf format args = Sprintf env format args"
| "method_message env Fatalf format args = Sprintf env format args"
| "method_message env Panicf format args = Sprintf env format args"
| "method_message env Debug format args = Sprint env args"
| "method_message env Info format args = Sprint env args"
| "method_message env Print format args = Sprint env args"
| "method_message env Warn format args = Sprint env args"
| "method_message env Warning format args = Sprint env args"
| "method_message env Error format args = Sprint env args"
| "method_message env Fatal format args = Sprint env args"
| "method_message env Panic format args = Sprint env args"
| "method_message env Debugln format args = Sprintln env args"
| "method_message env Infoln format args = Sprintln env args"
| "method_message env Println format args = Sprintln env args"
| "method_message env Warnln format args = Sprintln env args"
| "method_message env Warningln format args = Sprintln env args"
| "method_message env Errorln format args = Sprintln env args"
| "method_message env Fatalln format args = Sprintln env args"
| "method_message env Panicln format args = Sprintln env args"

section \<open>Concrete collaborators\<close>

text \<open>
  Two environments to run the methods in: one where the formatter, the hooks and the
  sink all succeed, one where all of them fail.  \<open>start\<close> is a world with an empty
  trace, and \<open>hooked\<close> a fresh Logger with two hooks registered for the level Error.
\<close>

definition quiet_env :: Env where
  "quiet_env =
     \<lparr>Sprint = (\<lambda>args. ''msg''), Sprintf = (\<lambda>format args. format),
      Sprintln = (\<lambda>args. ''msg''), Format = (\<lambda>f entry. Inr (entry_message entry)),
      Fallback = (\<lambda>entry. []), Fire = (\<lambda>h entry. None), Write = (\<lambda>out bs. None)\<rparr>"

definition failing_env :: Env where
  "failing_env =
     \<lparr>Sprint = (\<lambda>args. ''msg''), Sprintf = (\<lambda>format args. format),
      Sprintln = (\<lambda>args. ''msg''), Format = (\<lambda>f entry. Inl (Err ''format'')),
      Fallback = (\<lambda>entry. ''fallback''), Fire = (\<lambda>h entry. Some (Err ''hook'')),
      Write = (\<lambda>out bs. Some (Err ''write''))\<rparr>"

definition start :: World where
  "start = \<lparr>now = 0, trace = []\<rparr>"

definition hooked :: Logger where
  "hooked = New\<lparr>Hooks := [ErrorLevel \<mapsto> [Hook 1, Hook 2]]\<rparr>"

section \<open>Threshold predicates\<close>

lemmas Level_defs =
  PanicLevel_def FatalLevel_def ErrorLevel_def WarnLevel_def InfoLevel_def DebugLevel_def

lemmas Is_defs = IsDebug_def IsInfo_def IsWarn_def IsError_def IsFatal_def IsPanic_def

lemma level_of_inject: "level_of a = level_of b \<longleftrightarrow> a = b"
  by (cases a; cases b; simp add: Level_defs)

lemma unnamed_threshold_permits_all:
  "DebugLevel < Level logger \<Longrightarrow>
     IsDebug logger \<and> IsInfo logger \<and> IsWarn logger \<and> IsError logger \<and> IsFatal logger
     \<and> IsPanic logger"
  by (simp add: Is_defs Level_defs word_le_nat_alt word_less_nat_alt)

text \<open>
  C3: when the threshold of a Logger is one of the six named levels, each predicate
  \<open>IsDebug\<close>, \<open>IsInfo\<close>, \<open>IsWarn\<close>, \<open>IsError\<close>, \<open>IsFatal\<close>, \<open>IsPanic\<close> is
  true if and only if the threshold is at least as permissive as the named level under
  the severity order Panic > Fatal > Error > Warn > Info > Debug.
\<close>

theorem predicates_iff_permissive:
  assumes "Level logger = level_of t"
  shows "IsDebug logger = at_least_as_permissive t DEBUG
       \<and> IsInfo logger = at_least_as_permissive t INFO
       \<and> IsWarn logger = at_least_as_permissive t WARN
       \<and> IsError logger = at_least_as_permissive t ERROR
       \<and> IsFatal logger = at_least_as_permissive t FATAL
       \<and> IsPanic logger = at_least_as_permissive t PANIC"
  using assms
  by (cases t) (simp_all add: Is_defs Level_defs at_least_as_permissive_def word_le_nat_alt)

theorem predicates_iff_permissive_witness:
  "Level New = level_of INFO
     \<and> \<not> IsDebug New \<and> IsInfo New \<and> IsWarn New \<and> IsError New \<and> IsFatal New \<and> IsPanic New"
proof -
  have h: "Level New = level_of INFO" by (simp add: New_def)
  show ?thesis
    using h predicates_iff_permissive [OF h] by (simp add: at_least_as_permissive_def)
qed

text \<open>
  C4: \<open>New\<close> returns a Logger that writes to standard output, formats with the default
  text formatter, has no hooks and has the threshold Info; so on a fresh Logger
  \<open>IsInfo\<close>, \<open>IsWarn\<close>, \<open>IsError\<close>, \<open>IsFatal\<close> and \<open>IsPanic\<close> are true and \<open>IsDebug\<close>
  is false.
\<close>

theorem New_defaults:
  "Out New = Stdout \<and> Formatter New = TextFormatter \<and> Hooks New = Map.empty
     \<and> Level New = InfoLevel
     \<and> IsInfo New \<and> IsWarn New \<and> IsError New \<and> IsFatal New \<and> IsPanic New
     \<and> \<not> IsDebug New"
  by (simp add: New_def Is_defs Level_defs)

text \<open>
  C9: the six predicates form a chain: \<open>IsDebug\<close> implies \<open>IsInfo\<close>, which implies
  \<open>IsWarn\<close>, which implies \<open>IsError\<close>, which implies \<open>IsFatal\<close>, which implies
  \<open>IsPanic\<close>, whatever the threshold of the Logger.
\<close>

theorem predicates_chain:
  "(IsDebug logger \<longrightarrow> IsInfo logger) \<and> (IsInfo logger \<longrightarrow> IsWarn logger)
     \<and> (IsWarn logger \<longrightarrow> IsError logger) \<and> (IsError logger \<longrightarrow> IsFatal logger)
     \<and> (IsFatal logger \<longrightarrow> IsPanic logger)"
  by (simp add: Is_defs Level_defs word_le_nat_alt)

theorem predicates_chain_witness:
  "IsDebug (New\<lparr>Level := DebugLevel\<rparr>) \<and> IsInfo (New\<lparr>Level := DebugLevel\<rparr>)
     \<and> IsWarn (New\<lparr>Level := DebugLevel\<rparr>) \<and> IsError (New\<lparr>Level := DebugLevel\<rparr>)
     \<and> IsFatal (New\<lparr>Level := DebugLevel\<rparr>) \<and> IsPanic (New\<lparr>Level := DebugLevel\<rparr>)"
proof -
  have h: "IsDebug (New\<lparr>Level := DebugLevel\<rparr>)" by (simp add: IsDebug_def)
  show ?thesis using h predicates_chain [of "New\<lparr>Level := DebugLevel\<rparr>"] by blast
qed

text \<open>
  C10: \<open>IsPanic\<close> is true of every Logger, whatever its threshold: it tests
  \<open>Level \<ge> PanicLevel\<close>, and \<open>PanicLevel\<close> is the least value of the unsigned ordinal.
\<close>

theorem IsPanic_always: "IsPanic logger"
  by (simp add: IsPanic_def PanicLevel_def)

section \<open>The dispatch of an entry\<close>

lemmas Entry_method_defs =
  Entry_Debugf_def Entry_Infof_def Entry_Printf_def Entry_Warnf_def Entry_Warningf_def
  Entry_Errorf_def Entry_Fatalf_def Entry_Panicf_def
  Entry_Debug_def Entry_Info_def Entry_Print_def Entry_Warn_def Entry_Warning_def
  Entry_Error_def Entry_Fatal_def Entry_Panic_def
  Entry_Debugln_def Entry_Infoln_def Entry_Println_def Entry_Warnln_def Entry_Warningln_def
  Entry_Errorln_def Entry_Fatalln_def Entry_Panicln_def

lemmas Logger_method_defs =
  Logger_Debugf_def Logger_Infof_def Logger_Printf_def Logger_Warnf_def Logger_Warningf_def
  Logger_Errorf_def Logger_Fatalf_def Logger_Panicf_def
  Logger_Debug_def Logger_Info_def Logger_Print_def Logger_Warn_def Logger_Warning_def
  Logger_Error_def Logger_Fatal_def Logger_Panic_def
  Logger_Debugln_def Logger_Infoln_def Logger_Println_def Logger_Warnln_def
  Logger_Warningln_def Logger_Errorln_def Logger_Fatalln_def Logger_Panicln_def

lemmas step_defs =
  Entry_log_def isAtLeast_def dispatch_def format_step_def write_step_def emit_def finish_def
  hooks_for_def NewEntry_def Let_def

lemmas observer_defs =
  suppressed_def new_events_def formats_def hooks_fired_def writes_to_def records_level_def
  reported_def failures_def

lemma fire_hooks_trace:
  "fire_hooks env hs entry w = w\<lparr>trace := trace w @ hook_events env hs entry\<rparr>"
  by (induction hs arbitrary: w) (simp_all add: emit_def split: option.split)

lemma hook_events_fired: "hooks_fired (hook_events env hs entry) = hs"
  by (induction hs) (auto simp: hooks_fired_def split: option.split)

lemma hook_events_failures:
  "reported (hook_events env hs entry) = failures env (hook_events env hs entry)"
  by (induction hs) (simp_all add: reported_def failures_def split: option.split)

lemma hook_events_level:
  "entry_level entry = lvl \<Longrightarrow> records_level lvl (hook_events env hs entry)"
  by (induction hs) (simp_all add: records_level_def split: option.split)

lemma hook_events_no_write: "\<not> writes_to out (hook_events env hs entry)"
  by (induction hs) (simp_all add: writes_to_def split: option.split)

lemma dispatch_trace:
  "dispatch env entry lvl msg w =
     (finish lvl msg, w\<lparr>trace := trace w @ dispatch_events env (finalized entry lvl msg w) lvl\<rparr>)"
  by (auto simp: dispatch_def format_step_def write_step_def fire_hooks_trace emit_def Let_def
      dispatch_events_def format_events_def write_events_def formatted_bytes_def finalized_def
      split: sum.split option.split)

lemma dispatch_events_formats: "formats (dispatch_events env final lvl)"
  by (simp add: dispatch_events_def format_events_def formats_def)

lemma dispatch_events_writes:
  "writes_to (Out (entry_logger final)) (dispatch_events env final lvl)"
  by (simp add: dispatch_events_def write_events_def writes_to_def)

lemma hooks_fired_append: "hooks_fired (xs @ ys) = hooks_fired xs @ hooks_fired ys"
  by (simp add: hooks_fired_def)

lemma dispatch_events_hooks:
  "hooks_fired (dispatch_events env final lvl) = hooks_for (entry_logger final) lvl"
  by (simp add: dispatch_events_def hooks_fired_append hook_events_fired)
     (auto simp: hooks_fired_def format_events_def write_events_def split: sum.split option.split)

lemma reported_append: "reported (xs @ ys) = reported xs @ reported ys"
  by (simp add: reported_def)

lemma failures_append: "failures env (xs @ ys) = failures env xs @ failures env ys"
  by (simp add: failures_def)

lemma dispatch_events_failures:
  "reported (dispatch_events env final lvl) = failures env (dispatch_events env final lvl)"
  by (simp add: dispatch_events_def reported_append failures_append hook_events_failures)
     (simp add: reported_def failures_def format_events_def write_events_def
       split: sum.split option.split)

lemma dispatch_events_level:
  "entry_level final = lvl \<Longrightarrow> records_level lvl (dispatch_events env final lvl)"
  using hook_events_level [of final lvl env]
  by (simp add: dispatch_events_def records_level_def format_events_def write_events_def
      split: sum.split option.split)

lemma dispatch_events_nonempty: "dispatch_events env final lvl \<noteq> []"
  by (simp add: dispatch_events_def format_events_def)

lemma dispatch_not_suppressed: "\<not> suppressed (dispatch env entry lvl msg w) w"
proof
  assume "suppressed (dispatch env entry lvl msg w) w"
  then have "trace (w\<lparr>trace := trace w @ dispatch_events env (finalized entry lvl msg w) lvl\<rparr>) = trace w"
    by (simp add: suppressed_def dispatch_trace)
  then show False by (simp add: dispatch_events_nonempty)
qed

lemma new_events_dispatch:
  "new_events w (dispatch env entry lvl msg w) = dispatch_events env (finalized entry lvl msg w) lvl"
  by (simp add: new_events_def dispatch_trace)

lemma new_events_unchanged: "new_events w (r, w) = []"
  by (simp add: new_events_def)

lemma entry_logger_finalized: "entry_logger (finalized (NewEntry logger) lvl msg w) = logger"
  by (simp add: finalized_def NewEntry_def)

lemma entry_level_finalized: "entry_level (finalized entry lvl msg w) = lvl"
  by (simp add: finalized_def)

lemma isAtLeast_named:
  "isAtLeast (level_of l) (level_of t) = (\<not> strictly_less_severe l t)"
  by (cases l; cases t; simp add: isAtLeast_def strictly_less_severe_def Level_defs word_le_nat_alt)

section \<open>The logging methods and the gate\<close>

lemma Logger_call_gated:
  "\<not> is_print m \<Longrightarrow>
     Logger_call env m logger format args w =
       Entry_log env (NewEntry logger) (level_of (method_level m))
         (method_message env m format args) w"
  by (cases m) (simp_all add: Logger_method_defs Entry_method_defs)

lemma Logger_call_Print:
  "Logger_call env Print logger format args w =
     Entry_log env (NewEntry logger) InfoLevel (Sprint env args) w"
  by (simp add: Logger_Print_def Entry_Info_def)

lemma Logger_call_Printf_Println:
  "is_print m \<Longrightarrow> m \<noteq> Print \<Longrightarrow>
     Logger_call env m logger format args w =
       dispatch env (NewEntry logger) InfoLevel (method_message env m format args) w"
  by (cases m) (simp_all add: Logger_method_defs Entry_method_defs)

text \<open>
  C2: for a Logger whose threshold is the named level \<open>t\<close>, a logging call that is not
  of the Print family, at level \<open>l\<close>, is suppressed (it returns at once and the formatter,
  the hooks and the sink are left alone) if and only if \<open>l\<close> is strictly less severe than
  \<open>t\<close>; otherwise it invokes the formatter, fires the hooks registered for \<open>l\<close> in
  registration order and writes to the sink of the Logger.
\<close>

theorem gate_iff_strictly_less_severe:
  assumes "Level logger = level_of t" and "\<not> is_print m"
  shows "suppressed (Logger_call env m logger format args w) w
           = strictly_less_severe (method_level m) t
       \<and> (strictly_less_severe (method_level m) t \<longrightarrow>
            new_events w (Logger_call env m logger format args w) = [])
       \<and> (\<not> strictly_less_severe (method_level m) t \<longrightarrow>
            formats (new_events w (Logger_call env m logger format args w))
            \<and> hooks_fired (new_events w (Logger_call env m logger format args w))
                = hooks_for logger (level_of (method_level m))
            \<and> writes_to (Out logger) (new_events w (Logger_call env m logger format args w)))"
proof (cases "strictly_less_severe (method_level m) t")
  case True
  then have "Logger_call env m logger format args w = (Returned, w)"
    using assms by (simp add: Logger_call_gated Entry_log_def isAtLeast_named NewEntry_def)
  then show ?thesis using True by (simp add: suppressed_def new_events_unchanged)
next
  case False
  then have call: "Logger_call env m logger format args w =
      dispatch env (NewEntry logger) (level_of (method_level m))
        (method_message env m format args) w"
    using assms by (simp add: Logger_call_gated Entry_log_def isAtLeast_named NewEntry_def)
  show ?thesis
    using False
    by (simp add: call dispatch_not_suppressed new_events_dispatch dispatch_events_formats
        dispatch_events_hooks dispatch_events_writes [of "finalized (NewEntry logger) lvl msg w" for lvl msg, unfolded entry_logger_finalized]
        entry_logger_finalized)
qed

theorem gate_iff_strictly_less_severe_witness:
  "Level hooked = level_of INFO \<and> \<not> is_print Debug \<and> \<not> is_print Error
     \<and> suppressed (Logger_call quiet_env Debug hooked [] [] start) start
     \<and> new_events start (Logger_call quiet_env Debug hooked [] [] start) = []
     \<and> \<not> suppressed (Logger_call quiet_env Error hooked [] [] start) start
     \<and> formats (new_events start (Logger_call quiet_env Error hooked [] [] start))
     \<and> hooks_fired (new_events start (Logger_call quiet_env Error hooked [] [] start))
         = [Hook 1, Hook 2]
     \<and> writes_to Stdout (new_events start (Logger_call quiet_env Error hooked [] [] start))"
proof -
  have h: "Level hooked = level_of INFO" by (simp add: hooked_def New_def)
  have d: "\<not> is_print Debug" and e: "\<not> is_print Error" by simp_all
  show ?thesis
    using h d e
      gate_iff_strictly_less_severe [OF h d, of quiet_env "[]" "[]" start]
      gate_iff_strictly_less_severe [OF h e, of quiet_env "[]" "[]" start]
    by (simp add: strictly_less_severe_def hooks_for_def hooked_def New_def Level_defs)
qed

text \<open>
  \<open>Printf\<close> and \<open>Println\<close> hand the call to \<open>Entry.Printf\<close> and \<open>Entry.Println\<close>.
  With the Print methods of the Entry as section 4.3 of the spec describes them, these
  two calls are dispatched whatever the threshold, at the level Info.
\<close>

lemma Printf_Println_never_suppressed:
  assumes "is_print m" and "m \<noteq> Print"
  shows "\<not> suppressed (Logger_call env m logger format args w) w
       \<and> formats (new_events w (Logger_call env m logger format args w))
       \<and> hooks_fired (new_events w (Logger_call env m logger format args w))
           = hooks_for logger InfoLevel
       \<and> writes_to (Out logger) (new_events w (Logger_call env m logger format args w))
       \<and> records_level InfoLevel (new_events w (Logger_call env m logger format args w))"
  by (simp add: Logger_call_Printf_Println [OF assms] dispatch_not_suppressed
      new_events_dispatch dispatch_events_formats dispatch_events_hooks entry_logger_finalized
      dispatch_events_writes [of "finalized (NewEntry logger) lvl msg w" for lvl msg,
        unfolded entry_logger_finalized]
      dispatch_events_level entry_level_finalized)

lemma Logger_Print_is_Logger_Info: "Logger_Print = Logger_Info"
  by (simp add: fun_eq_iff Logger_Print_def Logger_Info_def)







text \<open>
  C5: \<open>Warning\<close>, \<open>Warningf\<close> and \<open>Warningln\<close> are the same functions as \<open>Warn\<close>, \<open>Warnf\<close>
  and \<open>Warnln\<close>: the same outcome and the same effect on the world for every Logger,
  argument list and world.
\<close>

theorem Warning_is_Warn:
  "Logger_Warning = Logger_Warn \<and> Logger_Warningf = Logger_Warnf
     \<and> Logger_Warningln = Logger_Warnln"
  by (simp add: fun_eq_iff Logger_Warning_def Logger_Warn_def Logger_Warningf_def
      Logger_Warnf_def Logger_Warningln_def Logger_Warnln_def)





section \<open>Failures\<close>

lemma Logger_call_outcome:
  "fst (Logger_call env m logger format args w) = Returned
     \<or> fst (Logger_call env m logger format args w)
         = finish (level_of (method_level m)) (method_message env m format args)"
  by (cases m)
     (simp_all add: Logger_method_defs Entry_method_defs Entry_log_def dispatch_trace)

lemma Logger_call_events:
  "new_events w (Logger_call env m logger format args w) = []
     \<or> (\<exists>final lvl. new_events w (Logger_call env m logger format args w)
           = dispatch_events env final lvl)"
  by (cases m)
     (auto simp: Logger_method_defs Entry_method_defs Entry_log_def new_events_unchanged
        new_events_dispatch)

text \<open>
  C7: no logging call of the Logger hands an error to its caller.  A call at a level other
  than Fatal and Panic returns normally whatever the formatter, the hooks and the sink
  do, and for every method the failures of the formatter, of the fired hooks and of the
  write are exactly the errors reported on the fallback channel, in the same order.
\<close>

theorem failures_reported_never_returned:
  "(method_level m \<noteq> FATAL \<and> method_level m \<noteq> PANIC \<longrightarrow>
       fst (Logger_call env m logger format args w) = Returned)
     \<and> reported (new_events w (Logger_call env m logger format args w))
         = failures env (new_events w (Logger_call env m logger format args w))"
proof
  show "method_level m \<noteq> FATAL \<and> method_level m \<noteq> PANIC \<longrightarrow>
       fst (Logger_call env m logger format args w) = Returned"
    using Logger_call_outcome [of env m logger format args w]
    by (cases "method_level m") (auto simp: finish_def Level_defs)
  show "reported (new_events w (Logger_call env m logger format args w))
         = failures env (new_events w (Logger_call env m logger format args w))"
    using Logger_call_events [of w env m logger format args]
    by (auto simp: dispatch_events_failures) (simp add: reported_def failures_def)
qed

theorem failures_reported_never_returned_witness:
  "method_level Error \<noteq> FATAL \<and> method_level Error \<noteq> PANIC
     \<and> fst (Logger_call failing_env Error hooked [] [] start) = Returned
     \<and> failures failing_env (new_events start (Logger_call failing_env Error hooked [] [] start))
         = [Err ''format'', Err ''hook'', Err ''hook'', Err ''write'']
     \<and> reported (new_events start (Logger_call failing_env Error hooked [] [] start))
         = [Err ''format'', Err ''hook'', Err ''hook'', Err ''write'']"
proof -
  have ev: "failures failing_env
        (new_events start (Logger_call failing_env Error hooked [] [] start))
      = [Err ''format'', Err ''hook'', Err ''hook'', Err ''write'']"
    by (simp add: Logger_Error_def Entry_Error_def step_defs observer_defs hooked_def New_def
        failing_env_def start_def Level_defs word_le_nat_alt)
  show ?thesis
    using failures_reported_never_returned [of Error failing_env hooked "[]" "[]" start] ev
    by simp
qed

end
